theory Spec2Isabelle
  imports Main "HOL-Library.Sublist" "HOL-Library.Char_ord" "HOL-Library.List_Lexorder"
begin

section \<open>Python strings\<close>

text \<open>
  A Python \<^verbatim>\<open>str\<close> is modelled as a \<^typ>\<open>string\<close> holding its UTF-8 bytes. Every
  literal of the program is ASCII except the en dash (U+2013, bytes E2 80 93) that
  \<^verbatim>\<open>main\<close> splits on.

  \<^verbatim>\<open>str.lower\<close> and \<^verbatim>\<open>str.strip\<close> belong to the Python library and follow the
  Unicode tables: they are parameters of the model, the two fields of a \<open>strlib\<close>, read
  as functions on the UTF-8 bytes of a string.
\<close>

record strlib =
  str_lower :: "string \<Rightarrow> string"
  str_strip :: "string \<Rightarrow> string"

text \<open>
  What the two library functions do on ASCII text: the letters A to Z are lowered, and
  the ASCII whitespace (the code points below 128 for which \<^verbatim>\<open>str.isspace\<close> holds) is
  stripped from both ends.
\<close>

definition lower_char :: "char \<Rightarrow> char" where
  "lower_char c =
     (case map_of (zip ''ABCDEFGHIJKLMNOPQRSTUVWXYZ'' ''abcdefghijklmnopqrstuvwxyz'') c of
        None \<Rightarrow> c
      | Some d \<Rightarrow> d)"

definition ascii_lower :: "string \<Rightarrow> string" where
  "ascii_lower s = map lower_char s"

definition is_space :: "char \<Rightarrow> bool" where
  "is_space c = (c \<in> set [CHR 0x09, CHR 0x0A, CHR 0x0B, CHR 0x0C, CHR 0x0D,
                           CHR 0x1C, CHR 0x1D, CHR 0x1E, CHR 0x1F, CHR 0x20])"

definition ascii_strip :: "string \<Rightarrow> string" where
  "ascii_strip s = rev (dropWhile is_space (rev (dropWhile is_space s)))"

definition ascii_lib :: strlib where
  "ascii_lib = \<lparr>str_lower = ascii_lower, str_strip = ascii_strip\<rparr>"

text \<open>
  A string is ASCII when no byte has its top bit set. A library is exact on ASCII when,
  on every ASCII string, its two functions are the two ASCII functions above; Python's
  are.
\<close>

definition is_ascii :: "string \<Rightarrow> bool" where
  "is_ascii s = list_all (\<lambda>c. \<not> digit7 c) s"

definition ascii_exact :: "strlib \<Rightarrow> bool" where
  "ascii_exact L =
     (\<forall>s. is_ascii s \<longrightarrow> str_lower L s = ascii_lower s \<and> str_strip L s = ascii_strip s)"

text \<open>
  The code points of a string, each as the string of its own bytes: a byte of the form
  10xxxxxx continues the code point that the bytes before it began.
\<close>

definition is_cont :: "char \<Rightarrow> bool" where
  "is_cont c = (digit7 c \<and> \<not> digit6 c)"

function code_points :: "string \<Rightarrow> string list" where
  "code_points [] = []"
| "code_points (c # cs) = (c # takeWhile is_cont cs) # code_points (dropWhile is_cont cs)"
  by pat_completeness auto
termination
  by (relation "measure length") (auto simp: less_Suc_eq_le length_dropWhile_le)

text \<open>\<^verbatim>\<open>k in s\<close> for two strings: \<open>k\<close> occurs in \<open>s\<close> as a contiguous run.\<close>

fun str_in :: "string \<Rightarrow> string \<Rightarrow> bool" where
  "str_in k [] = (k = [])"
| "str_in k (c # cs) = (prefix k (c # cs) \<or> str_in k cs)"

text \<open>
  \<^verbatim>\<open>s.split(sep)\<close> for a non-empty separator: the occurrences of \<open>sep\<close> are found
  from the left, without overlap, and the pieces between them are returned (\<open>n\<close>
  occurrences give \<open>n + 1\<close> pieces, some possibly empty). Python raises ValueError on an
  empty separator; the program only splits on the literals \<^verbatim>\<open>"/"\<close> and the en dash.
\<close>

function split_py :: "string \<Rightarrow> string \<Rightarrow> string list" where
  "split_py sep [] = [[]]"
| "split_py sep (c # cs) =
     (if sep \<noteq> [] \<and> prefix sep (c # cs)
      then [] # split_py sep (drop (length sep) (c # cs))
      else (case split_py sep cs of
              [] \<Rightarrow> [[c]]
            | p # ps \<Rightarrow> (c # p) # ps))"
  by pat_completeness auto
termination
  by (relation "measure (\<lambda>(sep, s). length s)") (auto simp: neq_Nil_conv)

text \<open>\<^verbatim>\<open>s.replace(old, new)\<close> for a non-empty \<open>old\<close>: every occurrence, from the left.\<close>

function replace_py :: "string \<Rightarrow> string \<Rightarrow> string \<Rightarrow> string" where
  "replace_py old new [] = []"
| "replace_py old new (c # cs) =
     (if old \<noteq> [] \<and> prefix old (c # cs)
      then new @ replace_py old new (drop (length old) (c # cs))
      else c # replace_py old new cs)"
  by pat_completeness auto
termination
  by (relation "measure (\<lambda>(old, new, s). length s)") (auto simp: neq_Nil_conv)

section \<open>The static tables\<close>

text \<open>A Python dict is an association list read through \<^const>\<open>map_of\<close>.\<close>

definition EMOTION_MAP :: "string \<rightharpoonup> string" where
  "EMOTION_MAP = map_of
    [(''happy'', ''joy''), (''excited'', ''joy''), (''proud'', ''joy''), (''grateful'', ''joy''),
     (''relieved'', ''joy''), (''motivated'', ''joy''), (''loved'', ''joy''),
     (''satisfied'', ''joy''),
     (''sad'', ''sadness''), (''lonely'', ''sadness''), (''tired'', ''sadness''),
     (''ashamed'', ''sadness''), (''embarrassed'', ''sadness''), (''bored'', ''sadness''),
     (''guilty'', ''sadness''),
     (''angry'', ''anger''), (''frustrated'', ''anger''),
     (''afraid'', ''fear''), (''anxious'', ''fear''), (''stressed'', ''fear''),
     (''surprised'', ''surprise''),
     (''disgusted'', ''disgust''),
     (''neutral'', ''neutral''), (''mixed'', ''mixed'')]"

definition DOMAIN_ALIAS_list :: "(string \<times> string) list" where
  "DOMAIN_ALIAS_list =
    [(''exercise'', ''exercise/fitness''), (''fitness'', ''exercise/fitness''),
     (''exercise/fitness'', ''exercise/fitness''),
     (''family'', ''family''),
     (''friends'', ''friends''),
     (''relationships'', ''relationships/marriage/partnership''),
     (''marriage'', ''relationships/marriage/partnership''),
     (''partnership'', ''relationships/marriage/partnership''),
     (''relationships/marriage/partnership'', ''relationships/marriage/partnership''),
     (''love'', ''love/romance''), (''romance'', ''love/romance''),
     (''love/romance'', ''love/romance''),
     (''food'', ''food/eating''), (''eating'', ''food/eating''),
     (''food/eating'', ''food/eating''),
     (''sleep'', ''sleep/rest''), (''rest'', ''sleep/rest''), (''sleep/rest'', ''sleep/rest''),
     (''health'', ''health/medical''), (''medical'', ''health/medical''),
     (''health/medical'', ''health/medical''),
     (''work'', ''work/career''), (''career'', ''work/career''),
     (''work/career'', ''work/career''),
     (''money'', ''money/finances''), (''finances'', ''money/finances''),
     (''finance'', ''money/finances''), (''money/finances'', ''money/finances''),
     (''school'', ''school/learning''), (''learning'', ''school/learning''),
     (''school/learning'', ''school/learning''),
     (''spirituality'', ''spirituality/religion''), (''religion'', ''spirituality/religion''),
     (''spirituality/religion'', ''spirituality/religion''),
     (''recreation'', ''recreation/leisure''), (''leisure'', ''recreation/leisure''),
     (''recreation/leisure'', ''recreation/leisure''),
     (''travel'', ''travel/nature''), (''nature'', ''travel/nature''),
     (''travel/nature'', ''travel/nature''),
     (''creativity'', ''creativity/art''), (''art'', ''creativity/art''),
     (''creativity/art'', ''creativity/art''),
     (''community'', ''community/society/politics''),
     (''society'', ''community/society/politics''),
     (''politics'', ''community/society/politics''),
     (''community/society/politics'', ''community/society/politics''),
     (''technology'', ''technology/media/internet''),
     (''media'', ''technology/media/internet''),
     (''internet'', ''technology/media/internet''),
     (''technology/media/internet'', ''technology/media/internet''),
     (''self'', ''self/growth/habits''), (''growth'', ''self/growth/habits''),
     (''habits'', ''self/growth/habits''),
     (''self/growth/habits'', ''self/growth/habits'')]"

definition DOMAIN_ALIAS :: "string \<rightharpoonup> string" where
  "DOMAIN_ALIAS = map_of DOMAIN_ALIAS_list"

definition EMOTION_ADJ :: "string \<rightharpoonup> string set" where
  "EMOTION_ADJ = map_of
    [(''joy'', {''neutral''}),
     (''neutral'', {''joy'', ''sadness''}),
     (''sadness'', {''anger'', ''fear'', ''neutral''}),
     (''anger'', {''sadness''}),
     (''fear'', {''sadness''}),
     (''surprise'', {}),
     (''disgust'', {''anger'', ''sadness''}),
     (''mixed'', {''joy'', ''sadness'', ''anger'', ''fear'', ''surprise'', ''disgust'',
                  ''neutral''})]"

definition DOMAIN_ADJ :: "(string \<times> string) set" where
  "DOMAIN_ADJ =
    {(''love/romance'', ''relationships/marriage/partnership''),
     (''work/career'', ''money/finances''),
     (''health/medical'', ''exercise/fitness''),
     (''food/eating'', ''health/medical''),
     (''family'', ''friends''),
     (''travel/nature'', ''recreation/leisure''),
     (''creativity/art'', ''recreation/leisure''),
     (''technology/media/internet'', ''recreation/leisure''),
     (''school/learning'', ''self/growth/habits'')}"

text \<open>\<^verbatim>\<open>d.get(k, default)\<close>.\<close>

definition dict_get :: "('k \<rightharpoonup> 'v) \<Rightarrow> 'k \<Rightarrow> 'v \<Rightarrow> 'v" where
  "dict_get d k dflt = (case d k of None \<Rightarrow> dflt | Some v \<Rightarrow> v)"

section \<open>Normalisation\<close>

text \<open>
  \<^verbatim>\<open>normalize_emotion_label\<close>: the argument is \<^verbatim>\<open>None\<close> (\<^const>\<open>None\<close>) or a string;
  the loop over the eight canonical names returns at the first name that occurs in \<open>s\<close>.
\<close>

definition emotion_names :: "string list" where
  "emotion_names =
     [''Joy'', ''Sadness'', ''Anger'', ''Fear'', ''Surprise'', ''Disgust'', ''Neutral'', ''Mixed'']"

fun first_name :: "strlib \<Rightarrow> string list \<Rightarrow> string \<Rightarrow> string" where
  "first_name L [] s = str_lower L (str_strip L s)"
| "first_name L (k # ks) s = (if str_in k s then str_lower L k else first_name L ks s)"

definition normalize_emotion_label :: "strlib \<Rightarrow> string option \<Rightarrow> string" where
  "normalize_emotion_label L e =
     (case e of None \<Rightarrow> [] | Some s \<Rightarrow> first_name L emotion_names s)"

definition canonical_domain :: "strlib \<Rightarrow> string option \<Rightarrow> string" where
  "canonical_domain L e =
     (case e of None \<Rightarrow> []
      | Some s0 \<Rightarrow> (let s = str_lower L (str_strip L s0) in dict_get DOMAIN_ALIAS s s))"

definition is_domain_adjacent :: "strlib \<Rightarrow> string \<Rightarrow> string \<Rightarrow> bool" where
  "is_domain_adjacent L a b =
     (if a = [] \<or> b = [] then False
      else (let x = str_lower L a; y = str_lower L b
            in x = y \<or> (x, y) \<in> DOMAIN_ADJ \<or> (y, x) \<in> DOMAIN_ADJ))"

section \<open>Bucketing\<close>

text \<open>The derived fields of a row that the two bucket functions read.\<close>

record row =
  manual_emotions_coarse :: "string list"
  classifier_emotion_norm :: string
  manual_domains_canon :: "string list"
  classifier_domain_norm :: string

text \<open>The test inside \<^verbatim>\<open>any(...)\<close> of \<^verbatim>\<open>bucket_emotion\<close>, for one \<open>mm\<close>.\<close>

definition adj_hit :: "string \<Rightarrow> string \<Rightarrow> bool" where
  "adj_hit c mm =
     ((case EMOTION_ADJ c of None \<Rightarrow> False | Some s \<Rightarrow> mm \<in> s) \<or>
      (case EMOTION_ADJ mm of None \<Rightarrow> False | Some s \<Rightarrow> c \<in> s))"

definition bucket_emotion :: "row \<Rightarrow> int" where
  "bucket_emotion r =
     (let mset = set (manual_emotions_coarse r); c = classifier_emotion_norm r
      in if mset = {} \<and> c = [] then 2
         else if c \<in> mset then 1
         else if c = ''mixed'' \<and> card mset > 1 then 2
         else if (\<exists>mm \<in> mset. adj_hit c mm) then 2
         else 3)"

definition bucket_domain :: "strlib \<Rightarrow> row \<Rightarrow> int" where
  "bucket_domain L r =
     (let mset = set (filter (\<lambda>x. x \<noteq> []) (manual_domains_canon r));
          c = classifier_domain_norm r
      in if mset = {} \<and> c = [] then 2
         else if c \<in> mset then 1
         else if CHR ''/'' \<in> set c \<and> (\<exists>p \<in> set (split_py ''/'' c). p \<in> mset) then 1
         else if (\<exists>mm \<in> mset. is_domain_adjacent L c mm) then 2
         else 3)"

section \<open>Cells, literal values and \<^verbatim>\<open>ensure_list\<close>\<close>

text \<open>
  What \<^verbatim>\<open>pd.read_csv\<close> puts in a cell: a missing value (NaN), a boolean, an integer
  or a string (floating-point cells other than NaN are not modelled).
\<close>

datatype cell = CNaN | CBool bool | CInt int | CStr string

text \<open>
  The Python values the program handles: \<^verbatim>\<open>None\<close>, NaN, the Python booleans, the
  booleans of numpy (\<^verbatim>\<open>numpy.bool_\<close>, which are not the objects \<^verbatim>\<open>True\<close> and
  \<^verbatim>\<open>False\<close>), integers, strings, and lists of strings (the token lists).
\<close>

datatype pyval =
  PNone | PNaN | PBool bool | PNpBool bool | PInt int | PStr string | PList "string list"

fun cell_val :: "cell \<Rightarrow> pyval" where
  "cell_val CNaN = PNaN"
| "cell_val (CBool b) = PBool b"
| "cell_val (CInt i) = PInt i"
| "cell_val (CStr s) = PStr s"

text \<open>
  \<^verbatim>\<open>ast.literal_eval\<close> belongs to the Python library, not to the program: it is the
  parameter \<open>lit\<close>, giving \<^const>\<open>None\<close> where it raises and the parsed value otherwise.
\<close>

fun ensure_list :: "(string \<Rightarrow> pyval option) \<Rightarrow> pyval \<Rightarrow> pyval" where
  "ensure_list lit (PList xs) = PList xs"
| "ensure_list lit (PStr x) = (case lit x of Some v \<Rightarrow> v | None \<Rightarrow> PList [])"
| "ensure_list lit x = PList []"

fun is_list :: "pyval \<Rightarrow> bool" where
  "is_list (PList xs) = True"
| "is_list x = False"

section \<open>The batch: \<^verbatim>\<open>main\<close>\<close>

datatype error = KeyError string | TypeError | ValueError

text \<open>
  The data frame: its column names and its rows, each row giving the cell of a column.
  A frame holds a cell for every column of every row; an entry absent from a row reads
  as NaN.
\<close>

record table =
  columns :: "string list"
  rows :: "(string \<rightharpoonup> cell) list"

definition cell_at :: "(string \<rightharpoonup> cell) \<Rightarrow> string \<Rightarrow> cell" where
  "cell_at r c = dict_get r c CNaN"

text \<open>
  The value a row of \<^verbatim>\<open>df.apply(..., axis=1)\<close> holds for a cell. When every cell of the
  frame is a boolean, the rows are boolean arrays and hold numpy booleans; otherwise the
  rows are object arrays and a boolean cell is the Python object \<^verbatim>\<open>True\<close> or
  \<^verbatim>\<open>False\<close>. The flag says which of the two kinds of row it is.
\<close>

fun series_val :: "bool \<Rightarrow> cell \<Rightarrow> pyval" where
  "series_val True (CBool b) = PNpBool b"
| "series_val np x = cell_val x"

definition bool_frame :: "table \<Rightarrow> bool" where
  "bool_frame df =
     list_all (\<lambda>r. list_all (\<lambda>c. case cell_at r c of CBool b \<Rightarrow> True | _ \<Rightarrow> False)
                              (columns df)) (rows df)"

text \<open>
  \<^verbatim>\<open>get_labels\<close>: the columns whose value in the row \<^verbatim>\<open>is True\<close>, each stripped of
  the prefix and of \<^verbatim>\<open>.raw\<close>, stripped and lowered.
\<close>

definition get_labels ::
  "strlib \<Rightarrow> bool \<Rightarrow> (string \<rightharpoonup> cell) \<Rightarrow> string list \<Rightarrow> string \<Rightarrow> string list" where
  "get_labels L np r cols pre =
     map (\<lambda>c. str_lower L (str_strip L (replace_py ''.raw'' [] (replace_py pre [] c))))
         (filter (\<lambda>c. dict_get (\<lambda>k. map_option (series_val np) (r k)) c (PBool False)
                        = PBool True) cols)"

text \<open>
  Lines 94 to 108: the manual labels of every row, built from the boolean columns when
  one of the two explicit columns is missing, parsed from the explicit columns otherwise.
  Line 104 runs on the frame as it was read; line 105 runs after line 104 has stored a
  column of lists, so its rows are object arrays whatever the frame was.
\<close>

definition manual_labels ::
  "strlib \<Rightarrow> (string \<Rightarrow> pyval option) \<Rightarrow> table \<Rightarrow> (pyval \<times> pyval) list" where
  "manual_labels L lit df =
     (if ''manual_emotions'' \<notin> set (columns df) \<or> ''manual_domains'' \<notin> set (columns df)
      then (let emo_cols = filter (prefix ''Answer.f1.'') (columns df);
                dom_cols = filter (prefix ''Answer.t1.'') (columns df)
            in map (\<lambda>r. (PList (get_labels L (bool_frame df) r emo_cols ''Answer.f1.''),
                          PList (get_labels L False r dom_cols ''Answer.t1.''))) (rows df))
      else map (\<lambda>r. (ensure_list lit (cell_val (cell_at r ''manual_emotions'')),
                      ensure_list lit (cell_val (cell_at r ''manual_domains'')))) (rows df))"

text \<open>
  \<^verbatim>\<open>for x in lst\<close>: a list gives its elements, a string its characters (one string
  per code point), anything else raises TypeError.
\<close>

fun iterate :: "pyval \<Rightarrow> error + string list" where
  "iterate (PList xs) = Inr xs"
| "iterate (PStr s) = Inr (code_points s)"
| "iterate x = Inl TypeError"

text \<open>\<^verbatim>\<open>sorted(set(...))\<close> is \<^term>\<open>sort (remdups xs)\<close>.\<close>

definition map_manual_emotions :: "pyval \<Rightarrow> error + string list" where
  "map_manual_emotions lst =
     (case iterate lst of
        Inl e \<Rightarrow> Inl e
      | Inr xs \<Rightarrow> Inr (sort (remdups (map (\<lambda>x. dict_get EMOTION_MAP x x) xs))))"

definition canon_manual_domains :: "strlib \<Rightarrow> pyval \<Rightarrow> error + string list" where
  "canon_manual_domains L lst =
     (case iterate lst of
        Inl e \<Rightarrow> Inl e
      | Inr xs \<Rightarrow> Inr (map (\<lambda>x. canonical_domain L (Some x)) xs))"

text \<open>A column computed row by row: the first row that raises ends the batch.\<close>

fun apply_col :: "('a \<Rightarrow> error + 'b) \<Rightarrow> 'a list \<Rightarrow> error + 'b list" where
  "apply_col f [] = Inr []"
| "apply_col f (x # xs) =
     (case f x of
        Inl e \<Rightarrow> Inl e
      | Inr y \<Rightarrow> (case apply_col f xs of Inl e \<Rightarrow> Inl e | Inr ys \<Rightarrow> Inr (y # ys)))"

text \<open>\<^verbatim>\<open>str(x)\<close> for a cell.\<close>

definition digit :: "nat \<Rightarrow> char" where
  "digit d = ''0123456789'' ! (d mod 10)"

fun show_nat :: "nat \<Rightarrow> string" where
  "show_nat n = (if n < 10 then [digit n] else show_nat (n div 10) @ [digit (n mod 10)])"

fun py_str :: "cell \<Rightarrow> string" where
  "py_str CNaN = ''nan''"
| "py_str (CBool b) = (if b then ''True'' else ''False'')"
| "py_str (CInt i) = (if i < 0 then CHR ''-'' # show_nat (nat (- i)) else show_nat (nat i))"
| "py_str (CStr s) = s"

definition en_dash :: string where
  "en_dash = [CHR 0xE2, CHR 0x80, CHR 0x93]"

text \<open>Line 116. A split never gives the empty list, so \<^verbatim>\<open>[-1]\<close> is its last piece.\<close>

definition emotion_norm_of :: "strlib \<Rightarrow> cell \<Rightarrow> string" where
  "emotion_norm_of L x =
     normalize_emotion_label L (Some (str_strip L (last (split_py en_dash (py_str x)))))"

text \<open>Line 117.\<close>

definition domain_norm_of :: "strlib \<Rightarrow> cell \<Rightarrow> string" where
  "domain_norm_of L x = canonical_domain L (Some (str_strip L (str_lower L (py_str x))))"

text \<open>Lines 149 to 166: the pairs of the rows whose bucket is 3.\<close>

definition emo_pairs :: "row list \<Rightarrow> (string \<times> string) list" where
  "emo_pairs df =
     concat (map (\<lambda>r. map (\<lambda>m. (m, classifier_emotion_norm r)) (manual_emotions_coarse r))
                 (filter (\<lambda>r. bucket_emotion r = 3) df))"

definition dom_pairs :: "strlib \<Rightarrow> row list \<Rightarrow> (string \<times> string) list" where
  "dom_pairs L df =
     concat (map (\<lambda>r. map (\<lambda>m. (m, classifier_domain_norm r)) (manual_domains_canon r))
                 (filter (\<lambda>r. bucket_domain L r = 3) df))"

text \<open>
  \<^verbatim>\<open>pd.crosstab\<close> of the two columns of a pair list: the row labels are the distinct
  first components, the column labels the distinct second components, both sorted, and a
  cell counts the occurrences of its pair.
\<close>

record crosstab =
  cm_index :: "string list"
  cm_columns :: "string list"
  cm_count :: "string \<Rightarrow> string \<Rightarrow> nat"

definition py_crosstab :: "(string \<times> string) list \<Rightarrow> crosstab" where
  "py_crosstab ps =
     \<lparr>cm_index = sort (remdups (map fst ps)),
      cm_columns = sort (remdups (map snd ps)),
      cm_count = (\<lambda>m p. count_list ps (m, p))\<rparr>"

record outputs =
  augmented :: "(row \<times> int \<times> int) list"
  emo_cm :: crosstab
  dom_cm :: crosstab

definition mk_row :: "string list \<times> string \<times> string \<times> string list \<Rightarrow> row" where
  "mk_row q = (case q of (coarse, en, dn, canon) \<Rightarrow>
     \<lparr>manual_emotions_coarse = coarse, classifier_emotion_norm = en,
      manual_domains_canon = canon, classifier_domain_norm = dn\<rparr>)"

text \<open>
  \<^verbatim>\<open>main\<close>, from the frame that was read to the augmented frame and the two confusion
  tables. A missing classifier column raises KeyError (lines 116 and 117). On a frame
  without rows, \<^verbatim>\<open>df.apply(bucket_emotion, axis=1)\<close> gives back a frame instead of a
  column, and storing it on line 142 raises ValueError.
\<close>

definition main ::
  "strlib \<Rightarrow> (string \<Rightarrow> pyval option) \<Rightarrow> table \<Rightarrow> error + outputs" where
  "main L lit df =
     (let labels = manual_labels L lit df in
      case apply_col (\<lambda>l. map_manual_emotions (fst l)) labels of
        Inl e \<Rightarrow> Inl e
      | Inr coarse \<Rightarrow>
     (if ''EmotionPro'' \<notin> set (columns df) then Inl (KeyError ''EmotionPro'')
      else let en = map (\<lambda>r. emotion_norm_of L (cell_at r ''EmotionPro'')) (rows df) in
      if ''DomainPro'' \<notin> set (columns df) then Inl (KeyError ''DomainPro'')
      else let dn = map (\<lambda>r. domain_norm_of L (cell_at r ''DomainPro'')) (rows df) in
      case apply_col (\<lambda>l. canon_manual_domains L (snd l)) labels of
        Inl e \<Rightarrow> Inl e
      | Inr canon \<Rightarrow>
     (if rows df = [] then Inl ValueError
      else let rs = map mk_row (zip coarse (zip en (zip dn canon)))
      in Inr \<lparr>augmented = map (\<lambda>r. (r, bucket_emotion r, bucket_domain L r)) rs,
              emo_cm = py_crosstab (emo_pairs rs),
              dom_cm = py_crosstab (dom_pairs L rs)\<rparr>)))"

section \<open>The rules in the words of the specification\<close>

text \<open>
  The emotion bucket as the specification words it: the set a coarse emotion stores as
  adjacent (empty for a string that is no key of the table), adjacency tested in both
  directions, and the five rules in order.
\<close>

definition adjacent_set :: "string \<Rightarrow> string set" where
  "adjacent_set a = (case EMOTION_ADJ a of None \<Rightarrow> {} | Some s \<Rightarrow> s)"

definition emotion_adjacent :: "string \<Rightarrow> string \<Rightarrow> bool" where
  "emotion_adjacent a b = (b \<in> adjacent_set a \<or> a \<in> adjacent_set b)"

definition bucket_emotion_rules :: "string set \<Rightarrow> string \<Rightarrow> int" where
  "bucket_emotion_rules mset c =
     (if mset = {} \<and> c = [] then 2
      else if c \<in> mset then 1
      else if c = ''mixed'' \<and> 1 < card mset then 2
      else if (\<exists>m \<in> mset. emotion_adjacent c m) then 2
      else 3)"

text \<open>A string with no whitespace at either end.\<close>

definition trimmed :: "string \<Rightarrow> bool" where
  "trimmed s = (s = [] \<or> (\<not> is_space (hd s) \<and> \<not> is_space (last s)))"

section \<open>Sample inputs\<close>

text \<open>
  A frame with the two classifier columns only: no explicit manual-label column and no
  boolean annotation column.
\<close>

definition bare_table :: table where
  "bare_table = \<lparr>columns = [''EmotionPro'', ''DomainPro''],
         rows = [[''EmotionPro'' \<mapsto> CStr ''Joy'', ''DomainPro'' \<mapsto> CStr ''work'']]\<rparr>"

text \<open>Two derived rows: one that mismatches on both axes, one that matches on both.\<close>

definition mismatch_row :: row where
  "mismatch_row = \<lparr>manual_emotions_coarse = [''joy''], classifier_emotion_norm = ''anger'',
     manual_domains_canon = [''family''], classifier_domain_norm = ''work/career''\<rparr>"

definition match_row :: row where
  "match_row = \<lparr>manual_emotions_coarse = [''joy''], classifier_emotion_norm = ''joy'',
     manual_domains_canon = [''family''], classifier_domain_norm = ''family''\<rparr>"

section \<open>Lowering and stripping\<close>

lemma lower_char_idem: "lower_char (lower_char c) = lower_char c"
  by (auto simp: lower_char_def)

lemma is_space_lower_char: "is_space (lower_char c) = is_space c"
  by (auto simp: lower_char_def is_space_def)

lemma ascii_lower_idem: "ascii_lower (ascii_lower s) = ascii_lower s"
  by (simp add: ascii_lower_def lower_char_idem)

lemma last_dropWhile: "dropWhile P xs \<noteq> [] \<Longrightarrow> last (dropWhile P xs) = last xs"
  by (induction xs) (auto split: if_splits)

lemma hd_dropWhile_not: "dropWhile P xs \<noteq> [] \<Longrightarrow> \<not> P (hd (dropWhile P xs))"
  by (induction xs) auto

lemma dropWhile_hd_id: "xs \<noteq> [] \<Longrightarrow> \<not> P (hd xs) \<Longrightarrow> dropWhile P xs = xs"
  by (cases xs) auto

lemma trimmed_ascii_strip: "trimmed (ascii_strip s)"
proof -
  let ?a = "dropWhile is_space s"
  let ?b = "dropWhile is_space (rev ?a)"
  show ?thesis
  proof (cases "?b = []")
    case True
    then show ?thesis by (simp add: trimmed_def ascii_strip_def)
  next
    case False
    then have nb: "\<not> is_space (hd ?b)" by (rule hd_dropWhile_not)
    have a: "?a \<noteq> []"
    proof
      assume "?a = []"
      then have "?b = []" by (simp only: rev.simps dropWhile.simps)
      with False show False by contradiction
    qed
    then have na: "\<not> is_space (hd ?a)" by (rule hd_dropWhile_not)
    from False have "last ?b = last (rev ?a)" by (rule last_dropWhile)
    with a have lb: "last ?b = hd ?a" by (simp add: last_rev)
    from False have "hd (rev ?b) = last ?b" "last (rev ?b) = hd ?b"
      by (simp_all add: hd_rev last_rev)
    with nb na lb False show ?thesis by (simp add: trimmed_def ascii_strip_def)
  qed
qed

lemma ascii_strip_trimmed: "trimmed s \<Longrightarrow> ascii_strip s = s"
proof (cases "s = []")
  case True
  then show ?thesis by (simp add: ascii_strip_def)
next
  case False
  assume "trimmed s"
  with False have h: "\<not> is_space (hd s)" and l: "\<not> is_space (last s)"
    by (simp_all add: trimmed_def)
  from False h have d: "dropWhile is_space s = s" by (rule dropWhile_hd_id)
  from False l have "dropWhile is_space (rev s) = rev s"
    by (intro dropWhile_hd_id) (simp_all add: hd_rev)
  with d show ?thesis by (simp add: ascii_strip_def)
qed

lemma trimmed_ascii_lower: "trimmed s \<Longrightarrow> trimmed (ascii_lower s)"
  by (auto simp: trimmed_def ascii_lower_def hd_map last_map is_space_lower_char)

lemma ascii_strip_lower_strip:
  "ascii_strip (ascii_lower (ascii_strip s)) = ascii_lower (ascii_strip s)"
  by (simp add: ascii_strip_trimmed trimmed_ascii_lower trimmed_ascii_strip)

lemma ascii_exact_ascii_lib: "ascii_exact ascii_lib"
  by (simp add: ascii_exact_def ascii_lib_def)

text \<open>
  Every value of the Domain Alias Table is ASCII, has no whitespace at its ends and no
  upper-case letter, and is a key of the table, mapped to itself.
\<close>

lemma alias_values_fixed:
  "\<forall>v \<in> snd ` set DOMAIN_ALIAS_list.
     is_ascii v \<and> ascii_strip v = v \<and> ascii_lower v = v \<and> DOMAIN_ALIAS v = Some v"
  by code_simp

section \<open>Canonical domains\<close>

text \<open>
  C4. \<^verbatim>\<open>canonical_domain\<close> is idempotent: canonicalising the result of
  \<^verbatim>\<open>canonical_domain\<close> (on \<^verbatim>\<open>None\<close> or on any string) gives that result again;
  and every value of the Domain Alias Table is canonicalised to itself. This holds for
  every \<^verbatim>\<open>str.lower\<close> and \<^verbatim>\<open>str.strip\<close> with three properties of Python's:
  lowering twice is lowering once, lowering a stripped string leaves it stripped, and on
  ASCII strings the two functions are the ASCII ones.
\<close>

theorem canonical_domain_idempotent:
  assumes lower_idem: "\<forall>s. str_lower L (str_lower L s) = str_lower L s"
    and strip_lower:
      "\<forall>s. str_strip L (str_lower L (str_strip L s)) = str_lower L (str_strip L s)"
    and ascii: "ascii_exact L"
  shows "canonical_domain L (Some (canonical_domain L x)) = canonical_domain L x \<and>
         (\<forall>v \<in> snd ` set DOMAIN_ALIAS_list. canonical_domain L (Some v) = v)"
proof
  have fixed: "str_lower L (str_strip L v) = v \<and> DOMAIN_ALIAS v = Some v"
    if "v \<in> snd ` set DOMAIN_ALIAS_list" for v
  proof -
    from that alias_values_fixed
    have a: "is_ascii v" "ascii_strip v = v" "ascii_lower v = v" "DOMAIN_ALIAS v = Some v"
      by blast+
    from ascii a(1) have "str_strip L v = ascii_strip v" "str_lower L v = ascii_lower v"
      by (simp_all add: ascii_exact_def)
    with a show ?thesis by simp
  qed
  have norm: "str_lower L (str_strip L (str_lower L (str_strip L s))) =
              str_lower L (str_strip L s)" for s
  proof -
    have "str_strip L (str_lower L (str_strip L s)) = str_lower L (str_strip L s)"
      using strip_lower by blast
    moreover have "str_lower L (str_lower L (str_strip L s)) = str_lower L (str_strip L s)"
      using lower_idem by blast
    ultimately show ?thesis by simp
  qed
  have "is_ascii []" by (simp add: is_ascii_def)
  with ascii have "str_strip L [] = ascii_strip []" "str_lower L [] = ascii_lower []"
    by (simp_all add: ascii_exact_def)
  then have empty: "str_lower L (str_strip L []) = []"
    by (simp add: ascii_strip_def ascii_lower_def)
  have no_key: "DOMAIN_ALIAS [] = None"
    by (simp add: DOMAIN_ALIAS_def DOMAIN_ALIAS_list_def)
  show "canonical_domain L (Some (canonical_domain L x)) = canonical_domain L x"
  proof (cases x)
    case None
    with empty no_key show ?thesis
      by (simp add: canonical_domain_def dict_get_def)
  next
    case (Some s0)
    let ?s = "str_lower L (str_strip L s0)"
    show ?thesis
    proof (cases "DOMAIN_ALIAS ?s")
      case None
      with Some norm [of s0] show ?thesis
        by (simp add: canonical_domain_def dict_get_def Let_def)
    next
      case (Some v)
      then have "v \<in> snd ` set DOMAIN_ALIAS_list"
        unfolding DOMAIN_ALIAS_def by (metis map_of_SomeD snd_conv image_eqI)
      with fixed have "str_lower L (str_strip L v) = v" "DOMAIN_ALIAS v = Some v"
        by blast+
      with Some \<open>x = Some s0\<close> show ?thesis
        by (simp add: canonical_domain_def dict_get_def Let_def)
    qed
  qed
next
  have fixed: "str_lower L (str_strip L v) = v \<and> DOMAIN_ALIAS v = Some v"
    if "v \<in> snd ` set DOMAIN_ALIAS_list" for v
  proof -
    from that alias_values_fixed
    have a: "is_ascii v" "ascii_strip v = v" "ascii_lower v = v" "DOMAIN_ALIAS v = Some v"
      by blast+
    from ascii a(1) have "str_strip L v = ascii_strip v" "str_lower L v = ascii_lower v"
      by (simp_all add: ascii_exact_def)
    with a show ?thesis by simp
  qed
  then show "\<forall>v \<in> snd ` set DOMAIN_ALIAS_list. canonical_domain L (Some v) = v"
    by (simp add: canonical_domain_def dict_get_def Let_def)
qed

theorem canonical_domain_idempotent_witness:
  "(\<forall>s. str_lower ascii_lib (str_lower ascii_lib s) = str_lower ascii_lib s) \<and>
   (\<forall>s. str_strip ascii_lib (str_lower ascii_lib (str_strip ascii_lib s)) =
        str_lower ascii_lib (str_strip ascii_lib s)) \<and>
   ascii_exact ascii_lib \<and>
   ''exercise/fitness'' \<in> snd ` set DOMAIN_ALIAS_list \<and>
   canonical_domain ascii_lib (Some ''exercise/fitness'') = ''exercise/fitness'' \<and>
   canonical_domain ascii_lib (Some (canonical_domain ascii_lib (Some '' Fitness ''))) =
     canonical_domain ascii_lib (Some '' Fitness '')"
proof -
  have h1: "\<forall>s. str_lower ascii_lib (str_lower ascii_lib s) = str_lower ascii_lib s"
    by (simp add: ascii_lib_def ascii_lower_idem)
  have h2: "\<forall>s. str_strip ascii_lib (str_lower ascii_lib (str_strip ascii_lib s)) =
                 str_lower ascii_lib (str_strip ascii_lib s)"
    by (simp add: ascii_lib_def ascii_strip_lower_strip)
  have m: "''exercise/fitness'' \<in> snd ` set DOMAIN_ALIAS_list"
    by (simp add: DOMAIN_ALIAS_list_def)
  from canonical_domain_idempotent [OF h1 h2 ascii_exact_ascii_lib, of "Some '' Fitness ''"]
    h1 h2 ascii_exact_ascii_lib m
  show ?thesis by blast
qed

section \<open>The emotion bucket\<close>

lemma adj_hit_emotion_adjacent: "adj_hit c mm = emotion_adjacent c mm"
  by (simp add: adj_hit_def emotion_adjacent_def adjacent_set_def split: option.splits)

text \<open>
  C1. For every record the emotion bucket follows the five rules in order: with
  \<open>mset\<close> the set of the coarse manual emotions and \<open>c\<close> the normalised classifier
  emotion, both empty gives 2; else \<open>c\<close> in \<open>mset\<close> gives 1; else \<open>c\<close> equal to
  \<^verbatim>\<open>"mixed"\<close> with more than one element in \<open>mset\<close> gives 2; else \<open>c\<close> adjacent, in
  either direction, to an element of \<open>mset\<close> gives 2; else 3. In particular a classifier
  value that is in the manual set gives 1 whatever the adjacency table says.
\<close>

theorem bucket_emotion_precedence:
  "bucket_emotion r =
     bucket_emotion_rules (set (manual_emotions_coarse r)) (classifier_emotion_norm r) \<and>
   (classifier_emotion_norm r \<in> set (manual_emotions_coarse r) \<longrightarrow> bucket_emotion r = 1)"
  by (auto simp: bucket_emotion_def bucket_emotion_rules_def adj_hit_emotion_adjacent Let_def)

theorem bucket_emotion_precedence_witness:
  "''joy'' \<in> set [''joy'', ''neutral''] \<and>
   bucket_emotion_rules (set [''joy'', ''neutral'']) ''joy'' = 1 \<and>
   bucket_emotion \<lparr>manual_emotions_coarse = [''joy'', ''neutral''],
     classifier_emotion_norm = ''joy'', manual_domains_canon = [],
     classifier_domain_norm = []\<rparr> = 1"
  using bucket_emotion_precedence [of "\<lparr>manual_emotions_coarse = [''joy'', ''neutral''],
     classifier_emotion_norm = ''joy'', manual_domains_canon = [],
     classifier_domain_norm = []\<rparr>"]
  by simp

subsection \<open>The scenario of the label \<^verbatim>\<open>Disgusted\<close>\<close>

lemma emotion_norm_Disgusted: "emotion_norm_of ascii_lib (CStr ''Disgusted'') = ''disgust''"
  by (simp add: emotion_norm_of_def en_dash_def ascii_strip_def is_space_def
      normalize_emotion_label_def emotion_names_def ascii_lib_def ascii_lower_def lower_char_def)

lemma coarse_angry: "map_manual_emotions (PList [''angry'']) = Inr [''anger'']"
  by (simp add: map_manual_emotions_def dict_get_def EMOTION_MAP_def)

text \<open>
  The classifier label \<^verbatim>\<open>Disgusted\<close> is not normalised to \<^verbatim>\<open>disgusted\<close> with
  bucket 3: the canonical name \<^verbatim>\<open>Disgust\<close> occurs in it.
\<close>

theorem disgusted_counterexample:
  "\<not> (emotion_norm_of ascii_lib (CStr ''Disgusted'') = ''disgusted'' \<and>
      bucket_emotion \<lparr>manual_emotions_coarse = [''anger''],
        classifier_emotion_norm = emotion_norm_of ascii_lib (CStr ''Disgusted''),
        manual_domains_canon = [], classifier_domain_norm = []\<rparr> = 3)"
  by (simp add: emotion_norm_Disgusted)

text \<open>
  C2, as the program computes it. For manual emotions \<^verbatim>\<open>["angry"]\<close> and classifier
  emotion \<^verbatim>\<open>Disgusted\<close>, the coarse manual list is \<^verbatim>\<open>["anger"]\<close>, the normalised
  classifier token is \<^verbatim>\<open>disgust\<close> (the canonical name \<^verbatim>\<open>Disgust\<close> is a
  substring of the label), the adjacency table is hit (\<^verbatim>\<open>disgust\<close> stores
  \<^verbatim>\<open>anger\<close>), and the emotion bucket is 2.
\<close>

theorem disgusted_is_adjacent:
  "map_manual_emotions (PList [''angry'']) = Inr [''anger''] \<and>
   emotion_norm_of ascii_lib (CStr ''Disgusted'') = ''disgust'' \<and>
   adj_hit ''disgust'' ''anger'' \<and>
   bucket_emotion (r\<lparr>manual_emotions_coarse := [''anger''],
       classifier_emotion_norm := emotion_norm_of ascii_lib (CStr ''Disgusted'')\<rparr>) = 2"
  by (simp add: emotion_norm_Disgusted coarse_angry bucket_emotion_def adj_hit_def EMOTION_ADJ_def)

theorem disgusted_is_adjacent_witness:
  "map_manual_emotions (PList [''angry'']) = Inr [''anger''] \<and>
   emotion_norm_of ascii_lib (CStr ''Disgusted'') = ''disgust'' \<and>
   bucket_emotion \<lparr>manual_emotions_coarse = [''anger''],
       classifier_emotion_norm = emotion_norm_of ascii_lib (CStr ''Disgusted''),
       manual_domains_canon = [], classifier_domain_norm = []\<rparr> = 2"
proof -
  let ?r = "\<lparr>manual_emotions_coarse = [], classifier_emotion_norm = [],
       manual_domains_canon = [], classifier_domain_norm = []\<rparr>"
  have u: "?r\<lparr>manual_emotions_coarse := [''anger''],
              classifier_emotion_norm := emotion_norm_of ascii_lib (CStr ''Disgusted'')\<rparr> =
           \<lparr>manual_emotions_coarse = [''anger''],
              classifier_emotion_norm = emotion_norm_of ascii_lib (CStr ''Disgusted''),
              manual_domains_canon = [], classifier_domain_norm = []\<rparr>"
    by simp
  from disgusted_is_adjacent [of ?r] show ?thesis
    unfolding u by blast
qed

subsection \<open>Adjacency\<close>

lemma EMOTION_ADJ_irrefl: "EMOTION_ADJ b = Some s \<Longrightarrow> b \<notin> s"
  by (auto simp: EMOTION_ADJ_def split: if_splits)

text \<open>
  C5. Adjacency is symmetric in effect: when \<open>a\<close> is in the set the table stores for
  \<open>b\<close>, a record with manual set \<open>{b}\<close> and classifier emotion \<open>a\<close> gets emotion
  bucket 2, and so does a record with manual set \<open>{a}\<close> and classifier emotion \<open>b\<close>.
  (No stored set contains its own key, so \<open>a\<close> and \<open>b\<close> are distinct.)
\<close>

theorem adjacency_symmetric_in_effect:
  assumes "EMOTION_ADJ b = Some s" and "a \<in> s"
  shows "bucket_emotion (r\<lparr>manual_emotions_coarse := [b], classifier_emotion_norm := a\<rparr>) = 2 \<and>
         bucket_emotion (r\<lparr>manual_emotions_coarse := [a], classifier_emotion_norm := b\<rparr>) = 2"
proof -
  from assms EMOTION_ADJ_irrefl have ne: "a \<noteq> b" by blast
  from assms have "adj_hit a b" "adj_hit b a" by (simp_all add: adj_hit_def)
  with ne show ?thesis by (auto simp: bucket_emotion_def)
qed

theorem adjacency_symmetric_in_effect_witness:
  "EMOTION_ADJ ''disgust'' = Some {''anger'', ''sadness''} \<and> ''anger'' \<in> {''anger'', ''sadness''} \<and>
   bucket_emotion \<lparr>manual_emotions_coarse = [''disgust''], classifier_emotion_norm = ''anger'',
     manual_domains_canon = [], classifier_domain_norm = []\<rparr> = 2 \<and>
   bucket_emotion \<lparr>manual_emotions_coarse = [''anger''], classifier_emotion_norm = ''disgust'',
     manual_domains_canon = [], classifier_domain_norm = []\<rparr> = 2"
proof -
  have k: "EMOTION_ADJ ''disgust'' = Some {''anger'', ''sadness''}"
    by (simp add: EMOTION_ADJ_def)
  have m: "''anger'' \<in> {''anger'', ''sadness''}" by simp
  from adjacency_symmetric_in_effect [OF k m, of "\<lparr>manual_emotions_coarse = [],
     classifier_emotion_norm = [], manual_domains_canon = [], classifier_domain_norm = []\<rparr>"] k m
  show ?thesis by simp
qed

text \<open>
  \<^verbatim>\<open>surprise\<close> does have an adjacency: \<^verbatim>\<open>mixed\<close> stores it, so a record with
  manual set \<^verbatim>\<open>{"surprise"}\<close> and classifier emotion \<^verbatim>\<open>mixed\<close> gets bucket 2
  through the adjacency rule.
\<close>

theorem surprise_mixed_counterexample:
  "''mixed'' \<noteq> ''surprise'' \<and> adj_hit ''mixed'' ''surprise'' \<and>
   bucket_emotion \<lparr>manual_emotions_coarse = [''surprise''], classifier_emotion_norm = ''mixed'',
     manual_domains_canon = [], classifier_domain_norm = []\<rparr> = 2"
  by (simp add: bucket_emotion_def adj_hit_def EMOTION_ADJ_def)

text \<open>
  C6, as the program computes it. For every classifier emotion \<open>c\<close> other than
  \<^verbatim>\<open>surprise\<close> and \<^verbatim>\<open>mixed\<close>, the adjacency test between \<open>c\<close> and
  \<^verbatim>\<open>surprise\<close> is false in both directions, and a record with manual set
  \<^verbatim>\<open>{"surprise"}\<close> and classifier emotion \<open>c\<close> gets bucket 3.
\<close>

theorem surprise_adjacent_only_mixed:
  assumes "c \<noteq> ''surprise''" and "c \<noteq> ''mixed''"
  shows "\<not> adj_hit c ''surprise'' \<and> \<not> adj_hit ''surprise'' c \<and>
         bucket_emotion (r\<lparr>manual_emotions_coarse := [''surprise''],
                           classifier_emotion_norm := c\<rparr>) = 3"
proof -
  have s: "EMOTION_ADJ ''surprise'' = Some {}" by (simp add: EMOTION_ADJ_def)
  from assms have "\<forall>s. EMOTION_ADJ c = Some s \<longrightarrow> ''surprise'' \<notin> s"
    by (auto simp: EMOTION_ADJ_def split: if_splits)
  with s have "\<not> adj_hit c ''surprise''" "\<not> adj_hit ''surprise'' c"
    by (auto simp: adj_hit_def split: option.splits)
  with assms show ?thesis by (auto simp: bucket_emotion_def)
qed

theorem surprise_adjacent_only_mixed_witness:
  "''joy'' \<noteq> ''surprise'' \<and> ''joy'' \<noteq> ''mixed'' \<and> \<not> adj_hit ''joy'' ''surprise'' \<and>
   bucket_emotion \<lparr>manual_emotions_coarse = [''surprise''], classifier_emotion_norm = ''joy'',
     manual_domains_canon = [], classifier_domain_norm = []\<rparr> = 3"
proof -
  have a: "''joy'' \<noteq> ''surprise''" and b: "''joy'' \<noteq> ''mixed''" by simp_all
  from surprise_adjacent_only_mixed [OF a b, of "\<lparr>manual_emotions_coarse = [],
     classifier_emotion_norm = [], manual_domains_canon = [], classifier_domain_norm = []\<rparr>"]
  show ?thesis by simp
qed

section \<open>The domain bucket\<close>

text \<open>
  C7. When the normalised classifier domain \<open>c\<close> is not in the filtered manual set,
  contains a \<^verbatim>\<open>/\<close>, and one of the pieces of \<open>c\<close> split on \<^verbatim>\<open>/\<close> is in the
  filtered manual set, the domain bucket is 1.
\<close>

theorem bucket_domain_split_match:
  assumes "classifier_domain_norm r \<notin> set (filter (\<lambda>x. x \<noteq> []) (manual_domains_canon r))"
    and "CHR ''/'' \<in> set (classifier_domain_norm r)"
    and "\<exists>p \<in> set (split_py ''/'' (classifier_domain_norm r)).
           p \<in> set (filter (\<lambda>x. x \<noteq> []) (manual_domains_canon r))"
  shows "bucket_domain L r = 1"
  using assms by (auto simp: bucket_domain_def Let_def)

theorem bucket_domain_split_match_witness:
  "''family/friends'' \<notin> set (filter (\<lambda>x. x \<noteq> []) [''family'', '''']) \<and>
   CHR ''/'' \<in> set ''family/friends'' \<and>
   ''family'' \<in> set (split_py ''/'' ''family/friends'') \<and>
   bucket_domain ascii_lib \<lparr>manual_emotions_coarse = [], classifier_emotion_norm = [],
     manual_domains_canon = [''family'', ''''], classifier_domain_norm = ''family/friends''\<rparr> = 1"
proof -
  let ?r = "\<lparr>manual_emotions_coarse = [], classifier_emotion_norm = [],
     manual_domains_canon = [''family'', ''''], classifier_domain_norm = ''family/friends''\<rparr>"
  have a: "classifier_domain_norm ?r \<notin> set (filter (\<lambda>x. x \<noteq> []) (manual_domains_canon ?r))"
    by simp
  have b: "CHR ''/'' \<in> set (classifier_domain_norm ?r)" by simp
  have c: "\<exists>p \<in> set (split_py ''/'' (classifier_domain_norm ?r)).
           p \<in> set (filter (\<lambda>x. x \<noteq> []) (manual_domains_canon ?r))"
    by simp
  from bucket_domain_split_match [OF a b c] show ?thesis by simp
qed

text \<open>
  C10. The emotion bucket does not filter empty strings, the domain bucket does: a record
  whose coarse manual emotions contain the empty string and whose classifier emotion is
  empty gets emotion bucket 1; a record whose canonical manual domains are the empty
  string only and whose classifier domain is empty gets domain bucket 2.
\<close>

theorem empty_string_labels:
  "([] \<in> set (manual_emotions_coarse r) \<and> classifier_emotion_norm r = []
      \<longrightarrow> bucket_emotion r = 1) \<and>
   (set (manual_domains_canon r) = {[]} \<and> classifier_domain_norm r = []
      \<longrightarrow> bucket_domain L r = 2)"
  by (auto simp: bucket_emotion_def bucket_domain_def Let_def filter_empty_conv)

theorem empty_string_labels_witness:
  "[] \<in> set [''''] \<and> set [''''] = {[]} \<and>
   bucket_emotion \<lparr>manual_emotions_coarse = [''''], classifier_emotion_norm = [],
     manual_domains_canon = [''''], classifier_domain_norm = []\<rparr> = 1 \<and>
   bucket_domain ascii_lib \<lparr>manual_emotions_coarse = [''''], classifier_emotion_norm = [],
     manual_domains_canon = [''''], classifier_domain_norm = []\<rparr> = 2"
  using empty_string_labels [of "\<lparr>manual_emotions_coarse = [''''], classifier_emotion_norm = [],
     manual_domains_canon = [''''], classifier_domain_norm = []\<rparr>"]
  by simp

section \<open>Missing columns\<close>

lemma apply_col_const:
  "\<forall>x \<in> set xs. f x = Inr y \<Longrightarrow> apply_col f xs = Inr (map (\<lambda>x. y) xs)"
  by (induction xs) auto

lemma get_labels_Nil: "get_labels L np r [] pre = []"
  by (simp add: get_labels_def)

lemma manual_labels_no_columns:
  assumes "''manual_emotions'' \<notin> set (columns df) \<or> ''manual_domains'' \<notin> set (columns df)"
    and "\<forall>c \<in> set (columns df). \<not> prefix ''Answer.f1.'' c \<and> \<not> prefix ''Answer.t1.'' c"
  shows "manual_labels L lit df = map (\<lambda>r. (PList [], PList [])) (rows df)"
proof -
  from assms(2) have "filter (prefix ''Answer.f1.'') (columns df) = []"
    "filter (prefix ''Answer.t1.'') (columns df) = []"
    by (simp_all add: filter_empty_conv)
  with assms(1) show ?thesis
    by (simp add: manual_labels_def get_labels_Nil Let_def)
qed

text \<open>
  A frame with neither the explicit manual-label columns nor any boolean annotation
  column does not make the batch fail: it runs to the end, with empty manual labels.
\<close>

theorem missing_columns_counterexample:
  "''manual_emotions'' \<notin> set (columns bare_table) \<and>
   ''manual_domains'' \<notin> set (columns bare_table) \<and>
   filter (prefix ''Answer.f1.'') (columns bare_table) = [] \<and>
   filter (prefix ''Answer.t1.'') (columns bare_table) = [] \<and>
   manual_labels ascii_lib Map.empty bare_table = [(PList [], PList [])] \<and>
   map_sum id augmented (main ascii_lib Map.empty bare_table) =
     Inr [(\<lparr>manual_emotions_coarse = [], classifier_emotion_norm = ''joy'',
            manual_domains_canon = [], classifier_domain_norm = ''work/career''\<rparr>, 3, 3)]"
  by (simp add: main_def bare_table_def manual_labels_def get_labels_def map_manual_emotions_def
      canon_manual_domains_def cell_at_def dict_get_def emotion_norm_of_def domain_norm_of_def
      en_dash_def ascii_strip_def is_space_def normalize_emotion_label_def emotion_names_def
      ascii_lib_def ascii_lower_def lower_char_def canonical_domain_def DOMAIN_ALIAS_def DOMAIN_ALIAS_list_def
      mk_row_def bucket_emotion_def bucket_domain_def is_domain_adjacent_def Let_def)

text \<open>
  C3, as the program computes it. If one of the two explicit manual-label columns is
  missing and no column has one of the two annotation prefixes, the program does not
  stop: every record gets empty manual emotions and empty manual domains; and on a frame
  with at least one row and the two classifier columns the batch completes with one
  output row per input row, each with empty coarse manual emotions and empty canonical
  manual domains.
\<close>

theorem missing_columns_give_empty_labels:
  assumes "''manual_emotions'' \<notin> set (columns df) \<or> ''manual_domains'' \<notin> set (columns df)"
    and "\<forall>c \<in> set (columns df). \<not> prefix ''Answer.f1.'' c \<and> \<not> prefix ''Answer.t1.'' c"
  shows "manual_labels L lit df = map (\<lambda>r. (PList [], PList [])) (rows df) \<and>
         (rows df \<noteq> [] \<and>
          ''EmotionPro'' \<in> set (columns df) \<and> ''DomainPro'' \<in> set (columns df) \<longrightarrow>
          (\<exists>out. main L lit df = Inr out \<and> length (augmented out) = length (rows df) \<and>
             (\<forall>a \<in> set (augmented out).
                manual_emotions_coarse (fst a) = [] \<and> manual_domains_canon (fst a) = [])))"
proof (intro conjI impI)
  show ml: "manual_labels L lit df = map (\<lambda>r. (PList [], PList [])) (rows df)"
    using assms by (rule manual_labels_no_columns)
  assume cols: "rows df \<noteq> [] \<and>
    ''EmotionPro'' \<in> set (columns df) \<and> ''DomainPro'' \<in> set (columns df)"
  let ?labels = "map (\<lambda>r. (PList [], PList [])) (rows df) :: (pyval \<times> pyval) list"
  let ?n = "length (rows df)"
  have c1: "apply_col (\<lambda>l. map_manual_emotions (fst l)) ?labels = Inr (map (\<lambda>x. []) ?labels)"
    by (rule apply_col_const) (auto simp: map_manual_emotions_def)
  have c2: "apply_col (\<lambda>l. canon_manual_domains L (snd l)) ?labels = Inr (map (\<lambda>x. []) ?labels)"
    by (rule apply_col_const) (auto simp: canon_manual_domains_def)
  let ?en = "map (\<lambda>r. emotion_norm_of L (cell_at r ''EmotionPro'')) (rows df)"
  let ?dn = "map (\<lambda>r. domain_norm_of L (cell_at r ''DomainPro'')) (rows df)"
  let ?rs = "map mk_row (zip (map (\<lambda>x. []) ?labels) (zip ?en (zip ?dn (map (\<lambda>x. []) ?labels))))"
  let ?out = "\<lparr>augmented = map (\<lambda>r. (r, bucket_emotion r, bucket_domain L r)) ?rs,
              emo_cm = py_crosstab (emo_pairs ?rs), dom_cm = py_crosstab (dom_pairs L ?rs)\<rparr>"
  from cols ml c1 c2 have m: "main L lit df = Inr ?out"
    by (simp add: main_def Let_def)
  have len: "length (augmented ?out) = ?n" by simp
  have emp: "\<forall>a \<in> set (augmented ?out).
                manual_emotions_coarse (fst a) = [] \<and> manual_domains_canon (fst a) = []"
  proof
    fix a assume "a \<in> set (augmented ?out)"
    then obtain q where q: "q \<in> set (zip (map (\<lambda>x. []) ?labels) (zip ?en (zip ?dn (map (\<lambda>x. []) ?labels))))"
      and a: "fst a = mk_row q" by auto
    obtain c e d k where qq: "q = (c, e, d, k)" by (cases q) auto
    from q qq have "c \<in> set (map (\<lambda>x. []) ?labels)" by (meson set_zip_leftD)
    moreover from q qq have "k \<in> set (map (\<lambda>x. []) ?labels)"
      by (meson set_zip_rightD)
    ultimately have "c = []" "k = []" by auto
    with a qq show "manual_emotions_coarse (fst a) = [] \<and> manual_domains_canon (fst a) = []"
      by (simp add: mk_row_def)
  qed
  from m len emp show "\<exists>out. main L lit df = Inr out \<and> length (augmented out) = length (rows df) \<and>
             (\<forall>a \<in> set (augmented out).
                manual_emotions_coarse (fst a) = [] \<and> manual_domains_canon (fst a) = [])"
    by blast
qed

theorem missing_columns_give_empty_labels_witness:
  "''manual_emotions'' \<notin> set (columns bare_table) \<and> rows bare_table \<noteq> [] \<and>
   ''EmotionPro'' \<in> set (columns bare_table) \<and> ''DomainPro'' \<in> set (columns bare_table) \<and>
   manual_labels ascii_lib Map.empty bare_table = [(PList [], PList [])] \<and>
   (\<exists>out. main ascii_lib Map.empty bare_table = Inr out \<and> length (augmented out) = 1)"
proof -
  have c: "columns bare_table = [''EmotionPro'', ''DomainPro'']"
    and n: "length (rows bare_table) = 1"
    and ne: "rows bare_table \<noteq> []"
    by (simp_all add: bare_table_def)
  have a: "''manual_emotions'' \<notin> set (columns bare_table) \<or>
           ''manual_domains'' \<notin> set (columns bare_table)"
    by (simp add: c)
  have b: "\<forall>c \<in> set (columns bare_table).
             \<not> prefix ''Answer.f1.'' c \<and> \<not> prefix ''Answer.t1.'' c"
    by (simp add: c)
  have e: "''EmotionPro'' \<in> set (columns bare_table) \<and> ''DomainPro'' \<in> set (columns bare_table)"
    by (simp add: c)
  have m: "''manual_emotions'' \<notin> set (columns bare_table)" by (simp add: c)
  have r: "map (\<lambda>r. (PList [], PList [])) (rows bare_table) = [(PList [], PList [])]"
    by (simp add: bare_table_def)
  note t = missing_columns_give_empty_labels [OF a b, of ascii_lib Map.empty]
  from t have l: "manual_labels ascii_lib Map.empty bare_table = [(PList [], PList [])]"
    unfolding r by (rule conjunct1)
  from t e ne obtain out where "main ascii_lib Map.empty bare_table = Inr out"
    "length (augmented out) = length (rows bare_table)" by blast
  with n have "\<exists>out. main ascii_lib Map.empty bare_table = Inr out \<and> length (augmented out) = 1"
    by auto
  with m e l ne show ?thesis by blast
qed

text \<open>On a frame without rows the batch never completes.\<close>

lemma main_no_rows: "rows df = [] \<Longrightarrow> main L lit df \<noteq> Inr out"
  by (simp add: main_def manual_labels_def Let_def)

section \<open>The confusion tables\<close>

lemma emo_pairs_origin:
  "(m, p) \<in> set (emo_pairs df) \<longleftrightarrow>
   (\<exists>r \<in> set df. bucket_emotion r = 3 \<and> m \<in> set (manual_emotions_coarse r) \<and>
      p = classifier_emotion_norm r)"
  by (auto simp: emo_pairs_def)

lemma dom_pairs_origin:
  "(m, p) \<in> set (dom_pairs L df) \<longleftrightarrow>
   (\<exists>r \<in> set df. bucket_domain L r = 3 \<and> m \<in> set (manual_domains_canon r) \<and>
      p = classifier_domain_norm r)"
  by (auto simp: dom_pairs_def)

lemma crosstab_labels:
  "set (cm_index (py_crosstab ps)) = fst ` set ps \<and> set (cm_columns (py_crosstab ps)) = snd ` set ps"
  by (simp add: py_crosstab_def)

lemma mismatch_row_buckets: "bucket_emotion mismatch_row = 3 \<and> bucket_domain ascii_lib mismatch_row = 3"
  by (simp add: mismatch_row_def bucket_emotion_def bucket_domain_def adj_hit_def EMOTION_ADJ_def
      is_domain_adjacent_def ascii_lib_def ascii_lower_def lower_char_def DOMAIN_ADJ_def)

lemma match_row_buckets: "bucket_emotion match_row = 1 \<and> bucket_domain ascii_lib match_row = 1"
  by (simp add: match_row_def bucket_emotion_def bucket_domain_def)

text \<open>
  C8. Only bucket-3 records contribute to the confusion tables. Every pair comes from a
  record of bucket 3, its first component one of that record's manual labels and its
  second the record's predicted value; the pair list of a frame is the concatenation of
  the pair lists of its records; a record of bucket 1 or 2 contributes no pair; a record
  of bucket 3 contributes one pair per manual label (none when it has none), all with its
  predicted value; and every row label and every column label of a table occurs in the
  respective field of some record of bucket 3. This holds for the emotion table and for
  the domain table.
\<close>

theorem confusion_only_from_bucket_3:
  "(\<forall>q \<in> set (emo_pairs df). \<exists>r \<in> set df. bucket_emotion r = 3 \<and>
       fst q \<in> set (manual_emotions_coarse r) \<and> snd q = classifier_emotion_norm r) \<and>
   (\<forall>q \<in> set (dom_pairs L df). \<exists>r \<in> set df. bucket_domain L r = 3 \<and>
       fst q \<in> set (manual_domains_canon r) \<and> snd q = classifier_domain_norm r) \<and>
   emo_pairs (xs @ r # ys) = emo_pairs xs @ emo_pairs [r] @ emo_pairs ys \<and>
   dom_pairs L (xs @ r # ys) = dom_pairs L xs @ dom_pairs L [r] @ dom_pairs L ys \<and>
   (bucket_emotion r \<noteq> 3 \<longrightarrow> emo_pairs [r] = []) \<and>
   (bucket_domain L r \<noteq> 3 \<longrightarrow> dom_pairs L [r] = []) \<and>
   (bucket_emotion r = 3 \<longrightarrow>
      emo_pairs [r] = map (\<lambda>m. (m, classifier_emotion_norm r)) (manual_emotions_coarse r) \<and>
      length (emo_pairs [r]) = length (manual_emotions_coarse r)) \<and>
   (bucket_domain L r = 3 \<longrightarrow>
      dom_pairs L [r] = map (\<lambda>m. (m, classifier_domain_norm r)) (manual_domains_canon r) \<and>
      length (dom_pairs L [r]) = length (manual_domains_canon r)) \<and>
   (\<forall>m \<in> set (cm_index (py_crosstab (emo_pairs df))).
      \<exists>r \<in> set df. bucket_emotion r = 3 \<and> m \<in> set (manual_emotions_coarse r)) \<and>
   (\<forall>p \<in> set (cm_columns (py_crosstab (emo_pairs df))).
      \<exists>r \<in> set df. bucket_emotion r = 3 \<and> p = classifier_emotion_norm r) \<and>
   (\<forall>m \<in> set (cm_index (py_crosstab (dom_pairs L df))).
      \<exists>r \<in> set df. bucket_domain L r = 3 \<and> m \<in> set (manual_domains_canon r)) \<and>
   (\<forall>p \<in> set (cm_columns (py_crosstab (dom_pairs L df))).
      \<exists>r \<in> set df. bucket_domain L r = 3 \<and> p = classifier_domain_norm r)"
proof -
  have e: "\<forall>q \<in> set (emo_pairs df). \<exists>r \<in> set df. bucket_emotion r = 3 \<and>
       fst q \<in> set (manual_emotions_coarse r) \<and> snd q = classifier_emotion_norm r"
    using emo_pairs_origin [of _ _ df] by (metis prod.collapse)
  have d: "\<forall>q \<in> set (dom_pairs L df). \<exists>r \<in> set df. bucket_domain L r = 3 \<and>
       fst q \<in> set (manual_domains_canon r) \<and> snd q = classifier_domain_norm r"
    using dom_pairs_origin [where df = df and L = L] by (metis prod.collapse)
  have a1: "emo_pairs (xs @ r # ys) = emo_pairs xs @ emo_pairs [r] @ emo_pairs ys"
    by (simp add: emo_pairs_def)
  have a2: "dom_pairs L (xs @ r # ys) = dom_pairs L xs @ dom_pairs L [r] @ dom_pairs L ys"
    by (simp add: dom_pairs_def)
  have s1: "bucket_emotion r \<noteq> 3 \<longrightarrow> emo_pairs [r] = []"
    by (simp add: emo_pairs_def)
  have s2: "bucket_domain L r \<noteq> 3 \<longrightarrow> dom_pairs L [r] = []"
    by (simp add: dom_pairs_def)
  have k1: "bucket_emotion r = 3 \<longrightarrow>
      emo_pairs [r] = map (\<lambda>m. (m, classifier_emotion_norm r)) (manual_emotions_coarse r) \<and>
      length (emo_pairs [r]) = length (manual_emotions_coarse r)"
    by (simp add: emo_pairs_def)
  have k2: "bucket_domain L r = 3 \<longrightarrow>
      dom_pairs L [r] = map (\<lambda>m. (m, classifier_domain_norm r)) (manual_domains_canon r) \<and>
      length (dom_pairs L [r]) = length (manual_domains_canon r)"
    by (simp add: dom_pairs_def)
  have l1: "\<forall>m \<in> set (cm_index (py_crosstab (emo_pairs df))).
      \<exists>r \<in> set df. bucket_emotion r = 3 \<and> m \<in> set (manual_emotions_coarse r)"
    using e by (auto simp: crosstab_labels)
  have l2: "\<forall>p \<in> set (cm_columns (py_crosstab (emo_pairs df))).
      \<exists>r \<in> set df. bucket_emotion r = 3 \<and> p = classifier_emotion_norm r"
    using e by (auto simp: crosstab_labels)
  have l3: "\<forall>m \<in> set (cm_index (py_crosstab (dom_pairs L df))).
      \<exists>r \<in> set df. bucket_domain L r = 3 \<and> m \<in> set (manual_domains_canon r)"
    using d by (auto simp: crosstab_labels)
  have l4: "\<forall>p \<in> set (cm_columns (py_crosstab (dom_pairs L df))).
      \<exists>r \<in> set df. bucket_domain L r = 3 \<and> p = classifier_domain_norm r"
    using d by (auto simp: crosstab_labels)
  from e d a1 a2 s1 s2 k1 k2 l1 l2 l3 l4 show ?thesis by (intro conjI)
qed

theorem confusion_only_from_bucket_3_witness:
  "bucket_emotion mismatch_row = 3 \<and> bucket_emotion match_row \<noteq> 3 \<and>
   bucket_domain ascii_lib mismatch_row = 3 \<and> bucket_domain ascii_lib match_row \<noteq> 3 \<and>
   emo_pairs [match_row, mismatch_row, match_row] = [(''joy'', ''anger'')] \<and>
   dom_pairs ascii_lib [match_row, mismatch_row, match_row] = [(''family'', ''work/career'')] \<and>
   cm_index (py_crosstab (emo_pairs [match_row, mismatch_row, match_row])) = [''joy''] \<and>
   cm_columns (py_crosstab (emo_pairs [match_row, mismatch_row, match_row])) = [''anger'']"
proof -
  note t = confusion_only_from_bucket_3 [where df = "[match_row, mismatch_row, match_row]"
      and xs = "[match_row]" and r = mismatch_row and ys = "[match_row]"
      and L = ascii_lib]
  have b: "bucket_emotion mismatch_row = 3" "bucket_domain ascii_lib mismatch_row = 3"
    using mismatch_row_buckets by blast+
  have c: "bucket_emotion match_row \<noteq> 3" "bucket_domain ascii_lib match_row \<noteq> 3"
    using match_row_buckets by simp_all
  have m: "emo_pairs [match_row] = []" "dom_pairs ascii_lib [match_row] = []"
    using c by (simp_all add: emo_pairs_def dom_pairs_def)
  have l: "[match_row, mismatch_row, match_row] = [match_row] @ mismatch_row # [match_row]"
    by simp
  from t b have e1: "emo_pairs [mismatch_row] =
      map (\<lambda>m. (m, classifier_emotion_norm mismatch_row)) (manual_emotions_coarse mismatch_row)"
    by blast
  from t b have d1: "dom_pairs ascii_lib [mismatch_row] =
      map (\<lambda>m. (m, classifier_domain_norm mismatch_row)) (manual_domains_canon mismatch_row)"
    by blast
  from t have e2: "emo_pairs ([match_row] @ mismatch_row # [match_row]) =
      emo_pairs [match_row] @ emo_pairs [mismatch_row] @ emo_pairs [match_row]"
    by blast
  from t have d2: "dom_pairs ascii_lib ([match_row] @ mismatch_row # [match_row]) =
      dom_pairs ascii_lib [match_row] @ dom_pairs ascii_lib [mismatch_row] @ dom_pairs ascii_lib [match_row]"
    by blast
  have e: "emo_pairs [match_row, mismatch_row, match_row] = [(''joy'', ''anger'')]"
    unfolding l e2 m e1 by (simp add: mismatch_row_def)
  have d: "dom_pairs ascii_lib [match_row, mismatch_row, match_row] = [(''family'', ''work/career'')]"
    unfolding l d2 m d1 by (simp add: mismatch_row_def)
  have x: "cm_index (py_crosstab (emo_pairs [match_row, mismatch_row, match_row])) = [''joy'']"
    "cm_columns (py_crosstab (emo_pairs [match_row, mismatch_row, match_row])) = [''anger'']"
    unfolding e by (simp_all add: py_crosstab_def)
  from b c e d x show ?thesis by blast
qed

section \<open>List parsing\<close>

text \<open>
  What \<^verbatim>\<open>ensure_list\<close> does on each kind of value: a list is returned unchanged, a
  string on which \<^verbatim>\<open>ast.literal_eval\<close> raises gives the empty list, and a value that is
  neither a list nor a string gives the empty list.
\<close>

lemma ensure_list_fallbacks:
  "ensure_list lit (PList xs) = PList xs"
  "lit x = None \<Longrightarrow> ensure_list lit (PStr x) = PList []"
  "ensure_list lit PNone = PList []"
  "ensure_list lit PNaN = PList []"
  "ensure_list lit (PBool b) = PList []"
  "ensure_list lit (PInt i) = PList []"
  by simp_all

text \<open>
  C9. The list-parsing step does not always yield a token list: for a string that
  \<^verbatim>\<open>ast.literal_eval\<close> parses to a value that is not a list, \<^verbatim>\<open>ensure_list\<close>
  returns that value as it is, not the empty list.
\<close>

theorem ensure_list_returns_parsed_value:
  assumes "lit x = Some v" and "\<not> is_list v"
  shows "ensure_list lit (PStr x) = v \<and> \<not> is_list (ensure_list lit (PStr x))"
  using assms by simp

theorem ensure_list_returns_parsed_value_witness:
  "[''5'' \<mapsto> PInt 5] ''5'' = Some (PInt 5) \<and> \<not> is_list (PInt 5) \<and>
   ensure_list [''5'' \<mapsto> PInt 5] (PStr ''5'') = PInt 5 \<and>
   map_manual_emotions (ensure_list [''5'' \<mapsto> PInt 5] (PStr ''5'')) = Inl TypeError"
proof -
  have a: "[''5'' \<mapsto> PInt 5] ''5'' = Some (PInt 5)" by simp
  have b: "\<not> is_list (PInt 5)" by simp
  from ensure_list_returns_parsed_value [of "[''5'' \<mapsto> PInt 5]" "''5''" "PInt 5", OF a b]
  show ?thesis
    by (simp add: map_manual_emotions_def)
qed

end
